theory Spec2Isabelle
  imports Complex_Main
begin

section \<open>Values of the JavaScript runtime\<close>

text \<open>
  The program is the cache-and-fetch part of \<^verbatim>\<open>src/script.js\<close>, lines 1 to 116:
  the constants and the functions \<^verbatim>\<open>getPageTotal\<close>, \<^verbatim>\<open>getRandomIDs\<close> and
  \<^verbatim>\<open>fetchArtworksAndCache\<close>. The same three functions stand in
  \<^verbatim>\<open>src/unnamed/part_000\<close>, lines 1 to 106. Line numbers below are those of
  \<^verbatim>\<open>src/script.js\<close>.

  Everything the program reads from storage or from the network is a JSON value. Numbers
  are real numbers here: rounding of doubles is not modelled. An object lists its
  properties, each key once. A JavaScript value is a JSON value or \<^verbatim>\<open>undefined\<close>,
  which is \<open>None\<close>.
\<close>

datatype json =
    JNull
  | JBool bool
  | JNum real
  | JStr string
  | JArr "json list"
  | JObj "(string \<times> json) list"

type_synonym jsval = "json option"

text \<open>The result of arithmetic: a number or \<^verbatim>\<open>NaN\<close>.\<close>

datatype number = NaN | Finite real

text \<open>
  What can be thrown: \<^verbatim>\<open>new Error(`HTTP error! status: ...`)\<close> of lines 24 and 93, the
  rejection of \<^verbatim>\<open>fetch\<close> when the request itself fails, the \<^verbatim>\<open>SyntaxError\<close> of
  \<^verbatim>\<open>JSON.parse\<close> and \<^verbatim>\<open>response.json()\<close>, and the \<^verbatim>\<open>TypeError\<close> of a property
  read or write on \<^verbatim>\<open>null\<close> or \<^verbatim>\<open>undefined\<close>.
\<close>

datatype error = HttpError nat | NetworkError | SyntaxError | TypeError

text \<open>
  An \<^verbatim>\<open>async\<close> function settles its promise: fulfilled with a value, or rejected with
  what was thrown.
\<close>

datatype outcome = Returned jsval | Threw error

text \<open>
  The property read \<^verbatim>\<open>o.k\<close>, for the keys the program reads (\<^verbatim>\<open>timestamp\<close>,
  \<^verbatim>\<open>data\<close>, \<^verbatim>\<open>pagination\<close>, \<^verbatim>\<open>total\<close>; none of them is a built-in property of
  strings, arrays or numbers): it throws on \<^verbatim>\<open>null\<close> and \<^verbatim>\<open>undefined\<close>, gives the
  property of an object when it has it, and \<^verbatim>\<open>undefined\<close> otherwise.
\<close>

fun property :: "jsval \<Rightarrow> string \<Rightarrow> error + jsval" where
  "property None k = Inl TypeError"
| "property (Some JNull) k = Inl TypeError"
| "property (Some (JObj fields)) k = Inr (map_of fields k)"
| "property (Some v) k = Inr None"

text \<open>
  \<^verbatim>\<open>ToNumber\<close>, applied by \<^verbatim>\<open>-\<close> and \<^verbatim>\<open>*\<close> to their operands. On
  \<^verbatim>\<open>undefined\<close>, \<^verbatim>\<open>null\<close>, booleans and numbers it is written out. Strings, arrays and
  objects go through the runtime's string grammar and \<^verbatim>\<open>ToPrimitive\<close> (which can throw);
  that conversion is the parameter \<open>c\<close>.
\<close>

fun ToNumber :: "(json \<Rightarrow> error + number) \<Rightarrow> jsval \<Rightarrow> error + number" where
  "ToNumber c None = Inr NaN"
| "ToNumber c (Some JNull) = Inr (Finite 0)"
| "ToNumber c (Some (JBool b)) = Inr (Finite (if b then 1 else 0))"
| "ToNumber c (Some (JNum x)) = Inr (Finite x)"
| "ToNumber c (Some v) = c v"

fun js_minus :: "number \<Rightarrow> number \<Rightarrow> number" where
  "js_minus (Finite a) (Finite b) = Finite (a - b)"
| "js_minus a b = NaN"

fun js_times :: "number \<Rightarrow> number \<Rightarrow> number" where
  "js_times (Finite a) (Finite b) = Finite (a * b)"
| "js_times a b = NaN"

fun js_plus :: "number \<Rightarrow> number \<Rightarrow> number" where
  "js_plus (Finite a) (Finite b) = Finite (a + b)"
| "js_plus a b = NaN"

text \<open>A comparison with \<^verbatim>\<open>NaN\<close> on either side is false.\<close>

fun js_less :: "number \<Rightarrow> number \<Rightarrow> bool" where
  "js_less (Finite a) (Finite b) = (a < b)"
| "js_less a b = False"

fun Math_floor :: "number \<Rightarrow> number" where
  "Math_floor (Finite a) = Finite (of_int \<lfloor>a\<rfloor>)"
| "Math_floor NaN = NaN"

section \<open>Configuration\<close>

definition CACHE_KEY :: string where
  "CACHE_KEY = ''aicArtworksCache''"

definition CACHE_DURATION :: real where
  "CACHE_DURATION = 60 * 60 * 1000"

section \<open>The environment: network, storage, clock, console, page\<close>

text \<open>
  The two requests the program sends. \<open>CountRequest\<close> is
  \<^verbatim>\<open>GET ARTWORKS_URL?limit=0\<close>; \<open>ArtworksRequest ids\<close> is
  \<^verbatim>\<open>GET ARTWORKS_URL?ids=<ids joined by commas>&fields=id,title,image_id,artist_display,date_display\<close>.
\<close>

datatype request = CountRequest | ArtworksRequest "number list"

text \<open>
  What \<^verbatim>\<open>fetch\<close> gives: the request fails (the promise rejects), or a response with
  its status and its body as \<^verbatim>\<open>response.json()\<close> reads it (\<open>None\<close>: the body is not
  JSON, and \<^verbatim>\<open>response.json()\<close> rejects).
\<close>

datatype reply = Failed | Response nat "json option"

text \<open>\<^verbatim>\<open>response.ok\<close>: the status is in the range 200 to 299.\<close>

definition ok :: "nat \<Rightarrow> bool" where
  "ok st = (200 \<le> st \<and> st \<le> 299)"

text \<open>One line of the console, for each \<^verbatim>\<open>console.log\<close> and \<^verbatim>\<open>console.error\<close>.\<close>

datatype message =
    CacheHit jsval
  | CacheExpired
  | CacheParseError error
  | NoCache
  | IdString "number list"
  | CacheUpdated int
  | TotalZero
  | CountError error
  | FetchError error

text \<open>The content of an element of the page: what the page came with, or the message of line 113.\<close>

datatype html = Static | FailedToLoad error

text \<open>
  What the program does not decide: the runtime's \<^verbatim>\<open>JSON.parse\<close> and
  \<^verbatim>\<open>JSON.stringify\<close>, the conversion of strings, arrays and objects to numbers, the
  successive values of \<^verbatim>\<open>Math.random()\<close>, the reply to each request and the
  milliseconds that pass while it is awaited.
\<close>

record runtime =
  parser :: "string \<Rightarrow> json option"
  serializer :: "json \<Rightarrow> string"
  coercion :: "json \<Rightarrow> error + number"
  rand :: "nat \<Rightarrow> real"
  network :: "request \<Rightarrow> reply"
  latency :: "request \<Rightarrow> nat"

text \<open>
  What the program reads and changes: \<^verbatim>\<open>localStorage\<close> (a store from keys to strings
  whose \<^verbatim>\<open>getItem\<close> and \<^verbatim>\<open>setItem\<close> always succeed), the clock in milliseconds, the
  number of calls of \<^verbatim>\<open>Math.random()\<close> so far, the requests sent so far (oldest first),
  the console, and the elements of the page by id.
\<close>

record state =
  localStorage :: "string \<rightharpoonup> string"
  clock :: int
  draws :: nat
  requests :: "request list"
  console :: "message list"
  document :: "string \<rightharpoonup> html"

definition console_log :: "message \<Rightarrow> state \<Rightarrow> state" where
  "console_log m s = s\<lparr>console := console s @ [m]\<rparr>"

text \<open>\<^verbatim>\<open>new Date().getTime()\<close>\<close>

definition Date_now :: "state \<Rightarrow> int" where
  "Date_now s = clock s"

text \<open>\<^verbatim>\<open>JSON.parse\<close>: the empty string is not a JSON text; \<open>None\<close> is the \<^verbatim>\<open>SyntaxError\<close>.\<close>

definition JSON_parse :: "runtime \<Rightarrow> string \<Rightarrow> json option" where
  "JSON_parse rt text = (if text = [] then None else parser rt text)"

text \<open>
  \<^verbatim>\<open>JSON.stringify\<close> of an object literal: a property whose value is \<^verbatim>\<open>undefined\<close>
  is left out.
\<close>

definition JSON_stringify :: "runtime \<Rightarrow> (string \<times> jsval) list \<Rightarrow> string" where
  "JSON_stringify rt obj =
     serializer rt (JObj (List.map_filter (\<lambda>(k, v). map_option (Pair k) v) obj))"

text \<open>
  \<^verbatim>\<open>await fetch(url)\<close>: the request is sent, time passes (the clock does not run
  backwards), the reply arrives.
\<close>

definition fetch :: "runtime \<Rightarrow> request \<Rightarrow> state \<Rightarrow> (error + nat \<times> json option) \<times> state" where
  "fetch rt rq s =
     (let s' = s\<lparr>clock := clock s + int (latency rt rq), requests := requests s @ [rq]\<rparr>
      in case network rt rq of
           Failed \<Rightarrow> (Inl NetworkError, s')
         | Response st b \<Rightarrow> (Inr (st, b), s'))"

section \<open>getPageTotal\<close>

text \<open>The \<^verbatim>\<open>try\<close> block, lines 22 to 34.\<close>

definition getPageTotal_try :: "runtime \<Rightarrow> state \<Rightarrow> (error + jsval) \<times> state" where
  "getPageTotal_try rt s =
     (case fetch rt CountRequest s of
        (Inl err, s1) \<Rightarrow> (Inl err, s1)
      | (Inr (st, b), s1) \<Rightarrow>
          if \<not> ok st then (Inl (HttpError st), s1)
          else
            (case b of
               None \<Rightarrow> (Inl SyntaxError, s1)
             | Some countData \<Rightarrow>
                 (case property (Some countData) ''pagination'' of
                    Inl err \<Rightarrow> (Inl err, s1)
                  | Inr pagination \<Rightarrow>
                      (case property pagination ''total'' of
                         Inl err \<Rightarrow> (Inl err, s1)
                       | Inr totalArtworks \<Rightarrow>
                           if totalArtworks = Some (JNum 0)
                           then (Inr (Some JNull), console_log TotalZero s1)
                           else (Inr totalArtworks, s1)))))"

text \<open>With the \<^verbatim>\<open>catch\<close> of lines 35 to 38: whatever was thrown, \<^verbatim>\<open>null\<close> is returned.\<close>

definition getPageTotal :: "runtime \<Rightarrow> state \<Rightarrow> jsval \<times> state" where
  "getPageTotal rt s =
     (case getPageTotal_try rt s of
        (Inr v, s1) \<Rightarrow> (v, s1)
      | (Inl err, s1) \<Rightarrow> (Some JNull, console_log (CountError err) s1))"

section \<open>getRandomIDs\<close>

text \<open>
  The loop of lines 48 to 51. Each round calls \<^verbatim>\<open>Math.random()\<close>, converts
  \<^verbatim>\<open>response\<close> to a number for the product, and pushes the identifier.
\<close>

function randomIDs_loop ::
  "runtime \<Rightarrow> jsval \<Rightarrow> nat \<Rightarrow> number list \<Rightarrow> state \<Rightarrow> (error + number list) \<times> state" where
  "randomIDs_loop rt response i idArr s =
     (if i < 10 then
        (let r = rand rt (draws s);
             s' = s\<lparr>draws := Suc (draws s)\<rparr>
         in case ToNumber (coercion rt) response of
              Inl err \<Rightarrow> (Inl err, s')
            | Inr factor \<Rightarrow>
                (let randomID = js_plus (Math_floor (js_times (Finite r) factor)) (Finite 1)
                 in randomIDs_loop rt response (i + 1) (idArr @ [randomID]) s'))
      else (Inr idArr, s))"
  by pat_completeness auto
termination
  by (relation "measure (\<lambda>(rt, response, i, idArr, s). 10 - i)") auto

declare randomIDs_loop.simps [simp del]

definition getRandomIDs :: "runtime \<Rightarrow> state \<Rightarrow> (error + number list) \<times> state" where
  "getRandomIDs rt s =
     (case getPageTotal rt s of
        (response, s1) \<Rightarrow> randomIDs_loop rt response 0 [] s1)"

section \<open>fetchArtworksAndCache\<close>

text \<open>
  The \<^verbatim>\<open>try\<close> block of lines 64 to 75 on a non-empty slot content. \<open>Inr (Some v)\<close> is
  \<^verbatim>\<open>return v\<close>, \<open>Inr None\<close> is falling out of the block.
\<close>

definition readCache_try :: "runtime \<Rightarrow> string \<Rightarrow> state \<Rightarrow> (error + jsval option) \<times> state" where
  "readCache_try rt cachedData s =
     (case JSON_parse rt cachedData of
        None \<Rightarrow> (Inl SyntaxError, s)
      | Some cache \<Rightarrow>
          (let now = Date_now s
           in case property (Some cache) ''timestamp'' of
                Inl err \<Rightarrow> (Inl err, s)
              | Inr timestamp \<Rightarrow>
                  (case ToNumber (coercion rt) timestamp of
                     Inl err \<Rightarrow> (Inl err, s)
                   | Inr t \<Rightarrow>
                       if js_less (js_minus (Finite (of_int now)) t) (Finite CACHE_DURATION)
                       then
                         (case property (Some cache) ''data'' of
                            Inl err \<Rightarrow> (Inl err, s)
                          | Inr d \<Rightarrow> (Inr (Some d), console_log (CacheHit timestamp) s))
                       else (Inr None, console_log CacheExpired s))))"

text \<open>
  Lines 60 to 83: \<^verbatim>\<open>if (cachedData)\<close> is false for \<^verbatim>\<open>null\<close> (no such key) and for
  the empty string; whatever the \<^verbatim>\<open>try\<close> block throws is caught and logged.
\<close>

definition readCache :: "runtime \<Rightarrow> state \<Rightarrow> jsval option \<times> state" where
  "readCache rt s =
     (case localStorage s CACHE_KEY of
        None \<Rightarrow> (None, console_log NoCache s)
      | Some cachedData \<Rightarrow>
          if cachedData = [] then (None, console_log NoCache s)
          else
            (case readCache_try rt cachedData s of
               (Inr r, s1) \<Rightarrow> (r, s1)
             | (Inl err, s1) \<Rightarrow> (None, console_log (CacheParseError err) s1)))"

text \<open>The object literal of lines 102 to 105.\<close>

definition cachePayload :: "int \<Rightarrow> jsval \<Rightarrow> (string \<times> jsval) list" where
  "cachePayload t artworks = [(''timestamp'', Some (JNum (of_int t))), (''data'', artworks)]"

text \<open>The \<^verbatim>\<open>try\<close> block of lines 87 to 109.\<close>

definition fetchFromAPI_try :: "runtime \<Rightarrow> state \<Rightarrow> (error + jsval) \<times> state" where
  "fetchFromAPI_try rt s =
     (case getRandomIDs rt s of
        (Inl err, s1) \<Rightarrow> (Inl err, s1)
      | (Inr ids, s1) \<Rightarrow>
          (case fetch rt (ArtworksRequest ids) (console_log (IdString ids) s1) of
             (Inl err, s2) \<Rightarrow> (Inl err, s2)
           | (Inr (st, b), s2) \<Rightarrow>
               if \<not> ok st then (Inl (HttpError st), s2)
               else
                 (case b of
                    None \<Rightarrow> (Inl SyntaxError, s2)
                  | Some apiResponse \<Rightarrow>
                      (case property (Some apiResponse) ''data'' of
                         Inl err \<Rightarrow> (Inl err, s2)
                       | Inr artworks \<Rightarrow>
                           (let t = Date_now s2;
                                s3 = s2\<lparr>localStorage := (localStorage s2)
                                       (CACHE_KEY \<mapsto> JSON_stringify rt (cachePayload t artworks))\<rparr>
                            in (Inr artworks, console_log (CacheUpdated t) s3))))))"

text \<open>
  With the \<^verbatim>\<open>catch\<close> of lines 111 to 115: the error is logged, then written into the
  element \<^verbatim>\<open>artworks-list\<close>. \<^verbatim>\<open>document.getElementById\<close> gives \<^verbatim>\<open>null\<close> when the
  page has no such element, and setting \<^verbatim>\<open>innerHTML\<close> on \<^verbatim>\<open>null\<close> throws inside the
  handler, so that \<^verbatim>\<open>return null\<close> is not reached.
\<close>

definition fetchFromAPI :: "runtime \<Rightarrow> state \<Rightarrow> outcome \<times> state" where
  "fetchFromAPI rt s =
     (case fetchFromAPI_try rt s of
        (Inr artworks, s1) \<Rightarrow> (Returned artworks, s1)
      | (Inl err, s1) \<Rightarrow>
          (let s2 = console_log (FetchError err) s1
           in case document s2 ''artworks-list'' of
                None \<Rightarrow> (Threw TypeError, s2)
              | Some el \<Rightarrow>
                  (Returned (Some JNull),
                   s2\<lparr>document := (document s2)(''artworks-list'' \<mapsto> FailedToLoad err)\<rparr>)))"

definition fetchArtworksAndCache :: "runtime \<Rightarrow> state \<Rightarrow> outcome \<times> state" where
  "fetchArtworksAndCache rt s =
     (case readCache rt s of
        (Some d, s1) \<Rightarrow> (Returned d, s1)
      | (None, s1) \<Rightarrow> fetchFromAPI rt s1)"

section \<open>Scenarios\<close>

text \<open>
  Concrete inputs on which the theorems below are run: the records of a response and those
  of an older cache entry, the two response
  bodies of the API, a runtime
  built from the replies to the two requests, and a starting state built from the slot
  content, the clock and the content of the element \<^verbatim>\<open>artworks-list\<close> (\<open>None\<close>: the
  page has no such element).
\<close>

definition demo_records :: "json list" where
  "demo_records =
     [JObj [(''id'', JNum 27992), (''title'', JStr ''A Sunday on La Grande Jatte''),
            (''image_id'', JStr ''2d484387'')]]"

definition cached_records :: "json list" where
  "cached_records = [JObj [(''id'', JNum 111628), (''title'', JStr ''Nighthawks'')]]"

definition count_body :: "real \<Rightarrow> json" where
  "count_body n = JObj [(''pagination'', JObj [(''total'', JNum n)])]"

definition artworks_body :: json where
  "artworks_body = JObj [(''data'', JArr demo_records)]"

text \<open>
  Slot contents: a well-formed entry of time 1000, an entry of time 1000 whose
  \<^verbatim>\<open>data\<close> is a number, a text cut short, and the entry that the program writes at
  time 3601240 for \<open>demo_records\<close>.
\<close>

definition entry_text :: string where
  "entry_text = ''{\"timestamp\":1000,\"data\":[{\"id\":111628,\"title\":\"Nighthawks\"}]}''"

definition odd_entry_text :: string where
  "odd_entry_text = ''{\"timestamp\":1000,\"data\":7}''"

definition broken_text :: string where
  "broken_text = ''{\"timestamp\":10''"

definition written_text :: string where
  "written_text =
     ''{\"timestamp\":3601240,\"data\":[{\"id\":27992,\"title\":\"A Sunday on La Grande Jatte\",\"image_id\":\"2d484387\"}]}''"

text \<open>
  \<^verbatim>\<open>JSON.parse\<close> and \<^verbatim>\<open>JSON.stringify\<close> as far as the scenarios need them: right on
  the four texts above and on the object written at time 3601240.
\<close>

definition demo_parser :: "string \<Rightarrow> json option" where
  "demo_parser raw =
     (if raw = entry_text
      then Some (JObj [(''timestamp'', JNum 1000), (''data'', JArr cached_records)])
      else if raw = odd_entry_text
      then Some (JObj [(''timestamp'', JNum 1000), (''data'', JNum 7)])
      else if raw = written_text
      then Some (JObj [(''timestamp'', JNum 3601240), (''data'', JArr demo_records)])
      else None)"

definition demo_serializer :: "json \<Rightarrow> string" where
  "demo_serializer j =
     (if j = JObj [(''timestamp'', JNum 3601240), (''data'', JArr demo_records)]
      then written_text
      else ''{}'')"

definition demo_runtime :: "reply \<Rightarrow> reply \<Rightarrow> runtime" where
  "demo_runtime count_reply artworks_reply =
     \<lparr>parser = demo_parser,
      serializer = demo_serializer,
      coercion = (\<lambda>v. Inr NaN),
      rand = (\<lambda>i. real (i mod 4) / 4),
      network = (\<lambda>rq. case rq of CountRequest \<Rightarrow> count_reply | ArtworksRequest ids \<Rightarrow> artworks_reply),
      latency = (\<lambda>rq. 120)\<rparr>"

definition demo_state :: "string option \<Rightarrow> int \<Rightarrow> html option \<Rightarrow> state" where
  "demo_state slot t el =
     \<lparr>localStorage = (\<lambda>k. if k = CACHE_KEY then slot else None),
      clock = t,
      draws = 0,
      requests = [],
      console = [],
      document = (\<lambda>k. if k = ''artworks-list'' then el else None)\<rparr>"

section \<open>The loop of getRandomIDs in closed form\<close>

lemma upt_shift:
  "i < 10 \<Longrightarrow> map f [0..<10 - i] = f 0 # map (\<lambda>k. f (Suc k)) [0..<10 - (i + 1)]"
proof -
  assume "i < 10"
  then have "[0..<10 - i] = 0 # map Suc [0..<10 - (i + 1)]"
    by (metis Suc_diff_Suc Suc_eq_plus1 upt_conv_Cons zero_less_diff map_Suc_upt)
  then show ?thesis by (simp add: comp_def)
qed

text \<open>
  When \<^verbatim>\<open>response\<close> converts to the number \<open>t\<close>, the loop runs its ten rounds: the
  identifier of round \<open>k\<close> is computed from the draw of that round alone.
\<close>

lemma randomIDs_loop_Inr:
  "ToNumber (coercion rt) response = Inr t \<Longrightarrow>
   randomIDs_loop rt response i idArr s =
     (Inr (idArr @ map (\<lambda>k. js_plus (Math_floor (js_times (Finite (rand rt (draws s + k))) t)) (Finite 1))
                      [0..<10 - i]),
      s\<lparr>draws := draws s + (10 - i)\<rparr>)"
proof (induction rt response i idArr s rule: randomIDs_loop.induct)
  case (1 rt response i idArr s)
  show ?case
  proof (cases "i < 10")
    case True
    let ?id = "js_plus (Math_floor (js_times (Finite (rand rt (draws s))) t)) (Finite 1)"
    have step: "randomIDs_loop rt response i idArr s =
        randomIDs_loop rt response (i + 1) (idArr @ [?id]) (s\<lparr>draws := Suc (draws s)\<rparr>)"
      by (subst randomIDs_loop.simps) (simp add: True "1.prems" Let_def)
    have ih: "randomIDs_loop rt response (i + 1) (idArr @ [?id]) (s\<lparr>draws := Suc (draws s)\<rparr>) =
        (Inr ((idArr @ [?id]) @
              map (\<lambda>k. js_plus (Math_floor (js_times (Finite (rand rt (Suc (draws s) + k))) t)) (Finite 1))
                [0..<10 - (i + 1)]),
         s\<lparr>draws := Suc (draws s) + (10 - (i + 1))\<rparr>)"
      using "1.IH"[OF True refl refl "1.prems" refl "1.prems"] by simp
    have "Suc (draws s) + (10 - (i + 1)) = draws s + (10 - i)"
      using True by simp
    then show ?thesis
      by (simp only: step ih) (simp add: upt_shift[OF True])
  next
    case False
    then show ?thesis
      by (subst randomIDs_loop.simps) simp
  qed
qed

text \<open>When the conversion throws, the loop is left in its first round.\<close>

lemma randomIDs_loop_Inl:
  "ToNumber (coercion rt) response = Inl err \<Longrightarrow> i < 10 \<Longrightarrow>
   randomIDs_loop rt response i idArr s = (Inl err, s\<lparr>draws := Suc (draws s)\<rparr>)"
  by (subst randomIDs_loop.simps) simp

section \<open>What each function reads and what it changes\<close>

lemmas total_defs = getPageTotal_def getPageTotal_try_def fetch_def console_log_def Let_def

text \<open>The value of getPageTotal is decided by the reply to the count request alone.\<close>

lemma getPageTotal_value: "fst (getPageTotal rt s) = fst (getPageTotal rt s')"
  by (simp add: total_defs split: reply.splits option.splits sum.splits prod.splits)

lemma getPageTotal_requests: "requests (snd (getPageTotal rt s)) = requests s @ [CountRequest]"
  by (simp add: total_defs split: reply.splits option.splits sum.splits prod.splits)

lemma getPageTotal_draws: "draws (snd (getPageTotal rt s)) = draws s"
  by (simp add: total_defs split: reply.splits option.splits sum.splits prod.splits)

lemma getPageTotal_document: "document (snd (getPageTotal rt s)) = document s"
  by (simp add: total_defs split: reply.splits option.splits sum.splits prod.splits)

lemma getPageTotal_localStorage: "localStorage (snd (getPageTotal rt s)) = localStorage s"
  by (simp add: total_defs split: reply.splits option.splits sum.splits prod.splits)

lemma getPageTotal_clock:
  "clock (snd (getPageTotal rt s)) = clock s + int (latency rt CountRequest)"
  by (simp add: total_defs split: reply.splits option.splits sum.splits prod.splits)

text \<open>When getPageTotal returns \<^verbatim>\<open>null\<close>: a failed request, a bad status, a total of 0.\<close>

lemma getPageTotal_null:
  assumes "network rt CountRequest = Failed \<or>
           (\<exists>st b. network rt CountRequest = Response st b \<and> \<not> ok st) \<or>
           (\<exists>st fields. network rt CountRequest =
                          Response st (Some (JObj [(''pagination'', JObj fields)])) \<and>
                        map_of fields ''total'' = Some (JNum 0))"
  shows "fst (getPageTotal rt s) = Some JNull"
  using assms
  by (auto simp: total_defs split: reply.splits option.splits sum.splits prod.splits)

lemma randomIDs_loop_frame:
  "randomIDs_loop rt response 0 [] s = (r, s1) \<Longrightarrow>
   requests s1 = requests s \<and> document s1 = document s \<and> localStorage s1 = localStorage s \<and>
   clock s1 = clock s \<and> draws s \<le> draws s1"
  by (cases "ToNumber (coercion rt) response")
     (auto simp: randomIDs_loop_Inl randomIDs_loop_Inr)

lemma randomIDs_loop_value:
  "draws s = draws s' \<Longrightarrow>
   fst (randomIDs_loop rt response 0 [] s) = fst (randomIDs_loop rt response 0 [] s') \<and>
   draws (snd (randomIDs_loop rt response 0 [] s)) = draws (snd (randomIDs_loop rt response 0 [] s'))"
  by (cases "ToNumber (coercion rt) response")
     (auto simp: randomIDs_loop_Inl randomIDs_loop_Inr)

lemma getRandomIDs_frame:
  assumes "getRandomIDs rt s = (r, s1)"
  shows "requests s1 = requests s @ [CountRequest]" "document s1 = document s"
    "localStorage s1 = localStorage s" "clock s1 = clock s + int (latency rt CountRequest)"
    "draws s \<le> draws s1"
proof -
  obtain response s0 where gp: "getPageTotal rt s = (response, s0)"
    by (cases "getPageTotal rt s")
  with assms have loop: "randomIDs_loop rt response 0 [] s0 = (r, s1)"
    by (simp add: getRandomIDs_def)
  from gp have s0: "s0 = snd (getPageTotal rt s)" by simp
  note fr = randomIDs_loop_frame[OF loop]
  show "requests s1 = requests s @ [CountRequest]"
    using fr by (simp add: s0 getPageTotal_requests)
  show "document s1 = document s"
    using fr by (simp add: s0 getPageTotal_document)
  show "localStorage s1 = localStorage s"
    using fr by (simp add: s0 getPageTotal_localStorage)
  show "clock s1 = clock s + int (latency rt CountRequest)"
    using fr by (simp add: s0 getPageTotal_clock)
  show "draws s \<le> draws s1"
    using fr by (simp add: s0 getPageTotal_draws)
qed

lemma getRandomIDs_value:
  assumes "draws s = draws s'"
  shows "fst (getRandomIDs rt s) = fst (getRandomIDs rt s')"
    "draws (snd (getRandomIDs rt s)) = draws (snd (getRandomIDs rt s'))"
proof -
  have d: "draws (snd (getPageTotal rt s)) = draws (snd (getPageTotal rt s'))"
    using assms by (simp add: getPageTotal_draws)
  have v: "fst (getPageTotal rt s) = fst (getPageTotal rt s')"
    by (rule getPageTotal_value)
  have e: "getRandomIDs rt t =
      randomIDs_loop rt (fst (getPageTotal rt t)) 0 [] (snd (getPageTotal rt t))" for t
    by (simp add: getRandomIDs_def split: prod.splits)
  show "fst (getRandomIDs rt s) = fst (getRandomIDs rt s')"
    unfolding e v using randomIDs_loop_value[OF d] by simp
  show "draws (snd (getRandomIDs rt s)) = draws (snd (getRandomIDs rt s'))"
    unfolding e v using randomIDs_loop_value[OF d] by simp
qed

lemmas api_defs = fetchFromAPI_def fetchFromAPI_try_def fetch_def console_log_def Let_def Date_now_def

text \<open>
  The remote part of fetchArtworksAndCache reads neither the storage nor the console: its
  outcome, the requests it sends and what it writes into the page are the same from two
  states that agree on the draws, the requests and the page.
\<close>

lemma fetchFromAPI_frame:
  assumes "draws s = draws s'" "requests s = requests s'" "document s = document s'"
  shows "fst (fetchFromAPI rt s) = fst (fetchFromAPI rt s') \<and>
         requests (snd (fetchFromAPI rt s)) = requests (snd (fetchFromAPI rt s')) \<and>
         document (snd (fetchFromAPI rt s)) = document (snd (fetchFromAPI rt s'))"
proof -
  obtain r s1 where g: "getRandomIDs rt s = (r, s1)" by (cases "getRandomIDs rt s")
  obtain r' s1' where g': "getRandomIDs rt s' = (r', s1')" by (cases "getRandomIDs rt s'")
  have r: "r' = r" using getRandomIDs_value(1)[OF assms(1), of rt] g g' by simp
  have q: "requests s1' = requests s1" "document s1' = document s1"
    using getRandomIDs_frame[OF g] getRandomIDs_frame[OF g'] assms by simp_all
  show ?thesis
    by (simp add: api_defs g g' r q split: reply.splits option.splits sum.splits prod.splits)
qed

lemma fetchFromAPI_ignores_storage:
  "fst (fetchFromAPI rt (s\<lparr>localStorage := m\<rparr>)) = fst (fetchFromAPI rt s) \<and>
   requests (snd (fetchFromAPI rt (s\<lparr>localStorage := m\<rparr>))) = requests (snd (fetchFromAPI rt s)) \<and>
   document (snd (fetchFromAPI rt (s\<lparr>localStorage := m\<rparr>))) = document (snd (fetchFromAPI rt s))"
  using fetchFromAPI_frame[of "s\<lparr>localStorage := m\<rparr>" s rt] by simp

lemma fetchFromAPI_requests_prefix:
  "\<exists>rest. requests (snd (fetchFromAPI rt s)) = requests s @ CountRequest # rest"
proof -
  obtain r s1 where g: "getRandomIDs rt s = (r, s1)" by (cases "getRandomIDs rt s")
  show ?thesis
    using getRandomIDs_frame(1)[OF g]
    by (simp add: api_defs g split: reply.splits option.splits sum.splits prod.splits)
qed

lemma fetchFromAPI_no_ids:
  assumes "getRandomIDs rt s = (Inl err, s1)"
  shows "requests (snd (fetchFromAPI rt s)) = requests s @ [CountRequest]"
  using getRandomIDs_frame(1)[OF assms]
  by (simp add: api_defs assms split: option.splits)

lemma fetchFromAPI_ids:
  assumes "getRandomIDs rt s = (Inr ids, s1)"
  shows "requests (snd (fetchFromAPI rt s)) = requests s @ [CountRequest, ArtworksRequest ids]"
  using getRandomIDs_frame(1)[OF assms]
  by (simp add: api_defs assms split: reply.splits option.splits sum.splits prod.splits)

lemma fetchFromAPI_success:
  assumes g: "getRandomIDs rt s = (Inr ids, s1)"
    and n: "network rt (ArtworksRequest ids) = Response st (Some apiResponse)" "ok st"
    and d: "property (Some apiResponse) ''data'' = Inr artworks"
  shows "fst (fetchFromAPI rt s) = Returned artworks"
    "localStorage (snd (fetchFromAPI rt s)) = (localStorage s)(CACHE_KEY \<mapsto>
       JSON_stringify rt (cachePayload
         (clock s + int (latency rt CountRequest) + int (latency rt (ArtworksRequest ids))) artworks))"
    "document (snd (fetchFromAPI rt s)) = document s"
  using getRandomIDs_frame[OF g]
  by (simp_all add: api_defs g n d)

lemma fetchFromAPI_failure:
  assumes g: "getRandomIDs rt s = (Inr ids, s1)"
    and n: "network rt (ArtworksRequest ids) = Failed \<and> err = NetworkError \<or>
            (\<exists>b. network rt (ArtworksRequest ids) = Response st b \<and> \<not> ok st \<and> err = HttpError st)"
  shows "fst (fetchFromAPI rt s) =
           (case document s ''artworks-list'' of
              None \<Rightarrow> Threw TypeError
            | Some el \<Rightarrow> Returned (Some JNull))"
    "localStorage (snd (fetchFromAPI rt s)) = localStorage s"
    "document (snd (fetchFromAPI rt s)) =
           (case document s ''artworks-list'' of
              None \<Rightarrow> document s
            | Some el \<Rightarrow> (document s)(''artworks-list'' \<mapsto> FailedToLoad err))"
    "last (console (snd (fetchFromAPI rt s))) = FetchError err"
  using getRandomIDs_frame[OF g] n
  by (auto simp: api_defs g split: option.splits)

lemmas cache_defs = fetchArtworksAndCache_def readCache_def readCache_try_def console_log_def
  Let_def Date_now_def JSON_parse_def

text \<open>Reading the cache changes the console only.\<close>

lemma readCache_frame:
  assumes "readCache rt s = (r, s1)"
  shows "requests s1 = requests s" "document s1 = document s" "localStorage s1 = localStorage s"
    "clock s1 = clock s" "draws s1 = draws s"
  using assms
  by (auto simp: readCache_def readCache_try_def console_log_def Let_def
      split: option.splits sum.splits if_splits prod.splits)

lemma absent_slot_misses:
  "localStorage s CACHE_KEY = None \<Longrightarrow> fst (readCache rt s) = None"
  by (simp add: readCache_def)

text \<open>On a cache miss the call is the remote part, whatever the slot held.\<close>

lemma miss_runs_fetchFromAPI:
  assumes "fst (readCache rt s) = None"
  shows "fst (fetchArtworksAndCache rt s) = fst (fetchFromAPI rt s) \<and>
         requests (snd (fetchArtworksAndCache rt s)) = requests (snd (fetchFromAPI rt s)) \<and>
         document (snd (fetchArtworksAndCache rt s)) = document (snd (fetchFromAPI rt s))"
proof -
  obtain s1 where rc: "readCache rt s = (None, s1)"
    using assms by (cases "readCache rt s") simp
  have "fetchArtworksAndCache rt s = fetchFromAPI rt s1"
    by (simp add: fetchArtworksAndCache_def rc)
  then show ?thesis
    using fetchFromAPI_frame[of s1 s rt] readCache_frame[OF rc] by simp
qed

text \<open>
  A call that sent the artworks request for \<open>ids\<close> missed the cache and got \<open>ids\<close> from
  getRandomIDs.
\<close>

lemma sent_batch_request:
  assumes run: "fetchArtworksAndCache rt s = (out, s')"
    and sent: "ArtworksRequest ids \<in> set (drop (length (requests s)) (requests s'))"
  shows "\<exists>s0 s1. readCache rt s = (None, s0) \<and> getRandomIDs rt s0 = (Inr ids, s1) \<and>
           (out, s') = fetchFromAPI rt s0"
proof -
  obtain r s0 where rc: "readCache rt s = (r, s0)" by (cases "readCache rt s")
  note fr = readCache_frame[OF rc]
  show ?thesis
  proof (cases r)
    case (Some d)
    then have "s' = s0" using run rc by (simp add: fetchArtworksAndCache_def)
    then show ?thesis using sent fr by simp
  next
    case None
    then have api: "fetchFromAPI rt s0 = (out, s')"
      using run rc by (simp add: fetchArtworksAndCache_def)
    obtain g s1 where g: "getRandomIDs rt s0 = (g, s1)" by (cases "getRandomIDs rt s0")
    show ?thesis
    proof (cases g)
      case (Inl err)
      then have "requests s' = requests s @ [CountRequest]"
        using fetchFromAPI_no_ids[of rt s0 err s1] g api fr by simp
      then show ?thesis using sent by simp
    next
      case (Inr ids')
      then have "requests s' = requests s @ [CountRequest, ArtworksRequest ids']"
        using fetchFromAPI_ids[of rt s0 ids' s1] g api fr by simp
      then have "ids' = ids" using sent by simp
      then show ?thesis using None rc g Inr api by simp
    qed
  qed
qed

lemma getRandomIDs_generated:
  assumes "ToNumber (coercion rt) (fst (getPageTotal rt s)) = Inr t"
  shows "fst (getRandomIDs rt s) =
    Inr (map (\<lambda>k. js_plus (Math_floor (js_times (Finite (rand rt (draws s + k))) t)) (Finite 1))
           [0..<10])"
proof -
  obtain response s0 where gp: "getPageTotal rt s = (response, s0)"
    by (cases "getPageTotal rt s")
  have d0: "draws s0 = draws s" using getPageTotal_draws[of rt s] gp by simp
  have tn: "ToNumber (coercion rt) response = Inr t" using assms gp by simp
  show ?thesis
    by (simp add: getRandomIDs_def gp randomIDs_loop_Inr[OF tn] d0)
qed

lemma getRandomIDs_thrown:
  assumes "ToNumber (coercion rt) (fst (getPageTotal rt s)) = Inl err"
  shows "fst (getRandomIDs rt s) = Inl err"
proof -
  obtain response s0 where gp: "getPageTotal rt s = (response, s0)"
    by (cases "getPageTotal rt s")
  have tn: "ToNumber (coercion rt) response = Inl err" using assms gp by simp
  show ?thesis
    by (simp add: getRandomIDs_def gp randomIDs_loop_Inl[OF tn])
qed

lemma fetchFromAPI_no_ids_outcome:
  assumes "getRandomIDs rt s = (Inl err, s1)"
  shows "fst (fetchFromAPI rt s) =
           (case document s ''artworks-list'' of
              None \<Rightarrow> Threw TypeError
            | Some el \<Rightarrow> Returned (Some JNull))"
    "localStorage (snd (fetchFromAPI rt s)) = localStorage s"
  using getRandomIDs_frame[OF assms]
  by (auto simp: api_defs assms split: option.splits)

lemma fetchFromAPI_no_data:
  assumes g: "getRandomIDs rt s = (Inr ids, s1)"
    and n: "\<not> (\<exists>st body artworks. network rt (ArtworksRequest ids) = Response st (Some body) \<and>
                 ok st \<and> property (Some body) ''data'' = Inr artworks)"
  shows "fst (fetchFromAPI rt s) =
           (case document s ''artworks-list'' of
              None \<Rightarrow> Threw TypeError
            | Some el \<Rightarrow> Returned (Some JNull))"
    "localStorage (snd (fetchFromAPI rt s)) = localStorage s"
  using getRandomIDs_frame[OF g] n
  by (auto simp: api_defs g split: option.splits reply.splits sum.splits)

text \<open>The remote part, step by step.\<close>

lemma fetchFromAPI_sequence:
  "(\<forall>t. ToNumber (coercion rt) (fst (getPageTotal rt s)) = Inr t \<longrightarrow>
      requests (snd (fetchFromAPI rt s)) =
        requests s @ [CountRequest, ArtworksRequest
          (map (\<lambda>k. js_plus (Math_floor (js_times (Finite (rand rt (draws s + k))) t)) (Finite 1))
             [0..<10])]) \<and>
   (\<forall>err. ToNumber (coercion rt) (fst (getPageTotal rt s)) = Inl err \<longrightarrow>
      requests (snd (fetchFromAPI rt s)) = requests s @ [CountRequest]) \<and>
   (\<forall>ids st body artworks.
      last (requests (snd (fetchFromAPI rt s))) = ArtworksRequest ids \<and>
      network rt (ArtworksRequest ids) = Response st (Some body) \<and> ok st \<and>
      property (Some body) ''data'' = Inr artworks \<longrightarrow>
      fst (fetchFromAPI rt s) = Returned artworks \<and>
      localStorage (snd (fetchFromAPI rt s)) = (localStorage s)(CACHE_KEY \<mapsto>
        JSON_stringify rt (cachePayload
          (clock s + int (latency rt CountRequest) + int (latency rt (ArtworksRequest ids)))
          artworks))) \<and>
   (\<not> (\<exists>ids st body artworks.
      last (requests (snd (fetchFromAPI rt s))) = ArtworksRequest ids \<and>
      network rt (ArtworksRequest ids) = Response st (Some body) \<and> ok st \<and>
      property (Some body) ''data'' = Inr artworks) \<longrightarrow>
      fst (fetchFromAPI rt s) =
        (case document s ''artworks-list'' of
           None \<Rightarrow> Threw TypeError
         | Some el \<Rightarrow> Returned (Some JNull)) \<and>
      localStorage (snd (fetchFromAPI rt s)) = localStorage s)"
proof -
  obtain g s1 where g: "getRandomIDs rt s = (g, s1)" by (cases "getRandomIDs rt s")
  show ?thesis
  proof (cases g)
    case (Inl e)
    have conv: "ToNumber (coercion rt) (fst (getPageTotal rt s)) = Inl e"
    proof (cases "ToNumber (coercion rt) (fst (getPageTotal rt s))")
      case (Inl e')
      then show ?thesis using getRandomIDs_thrown[OF Inl] g \<open>g = Inl e\<close> by simp
    next
      case (Inr t)
      then show ?thesis using getRandomIDs_generated[OF Inr] g \<open>g = Inl e\<close> by simp
    qed
    have rq: "requests (snd (fetchFromAPI rt s)) = requests s @ [CountRequest]"
      using fetchFromAPI_no_ids[of rt s e s1] g Inl by simp
    have last_rq: "last (requests (snd (fetchFromAPI rt s))) = CountRequest"
      by (simp add: rq)
    show ?thesis
      using conv rq last_rq fetchFromAPI_no_ids_outcome[of rt s e s1] g Inl by simp
  next
    case (Inr ids)
    have g': "getRandomIDs rt s = (Inr ids, s1)" using g Inr by simp
    obtain t where conv: "ToNumber (coercion rt) (fst (getPageTotal rt s)) = Inr t"
      and ids: "ids = map (\<lambda>k. js_plus (Math_floor (js_times (Finite (rand rt (draws s + k))) t)) (Finite 1))
             [0..<10]"
    proof (cases "ToNumber (coercion rt) (fst (getPageTotal rt s))")
      case (Inl e')
      then show ?thesis using getRandomIDs_thrown[OF Inl] g' by simp
    next
      case (Inr t)
      then show ?thesis using getRandomIDs_generated[OF Inr] g' that by simp
    qed
    have rq: "requests (snd (fetchFromAPI rt s)) = requests s @ [CountRequest, ArtworksRequest ids]"
      by (rule fetchFromAPI_ids[OF g'])
    have good: "fst (fetchFromAPI rt s) = Returned artworks \<and>
      localStorage (snd (fetchFromAPI rt s)) = (localStorage s)(CACHE_KEY \<mapsto>
        JSON_stringify rt (cachePayload
          (clock s + int (latency rt CountRequest) + int (latency rt (ArtworksRequest ids)))
          artworks))"
      if "network rt (ArtworksRequest ids) = Response st (Some body)" "ok st"
        "property (Some body) ''data'' = Inr artworks" for st body artworks
      using fetchFromAPI_success[OF g' that] by simp
    have bad: "fst (fetchFromAPI rt s) =
        (case document s ''artworks-list'' of
           None \<Rightarrow> Threw TypeError
         | Some el \<Rightarrow> Returned (Some JNull)) \<and>
      localStorage (snd (fetchFromAPI rt s)) = localStorage s"
      if "\<not> (\<exists>st body artworks. network rt (ArtworksRequest ids) = Response st (Some body) \<and>
                 ok st \<and> property (Some body) ''data'' = Inr artworks)"
      using fetchFromAPI_no_data[OF g' that] by simp
    have last_rq: "last (requests (snd (fetchFromAPI rt s))) = ArtworksRequest ids"
      by (simp add: rq)
    show ?thesis
    proof (intro conjI allI impI)
      fix t' assume "ToNumber (coercion rt) (fst (getPageTotal rt s)) = Inr t'"
      then have "t' = t" using conv by simp
      then show "requests (snd (fetchFromAPI rt s)) =
        requests s @ [CountRequest, ArtworksRequest
          (map (\<lambda>k. js_plus (Math_floor (js_times (Finite (rand rt (draws s + k))) t')) (Finite 1))
             [0..<10])]"
        using rq ids by simp
    next
      fix err assume "ToNumber (coercion rt) (fst (getPageTotal rt s)) = Inl err"
      then show "requests (snd (fetchFromAPI rt s)) = requests s @ [CountRequest]"
        using conv by simp
    next
      fix ids' st body artworks
      assume a: "last (requests (snd (fetchFromAPI rt s))) = ArtworksRequest ids' \<and>
        network rt (ArtworksRequest ids') = Response st (Some body) \<and> ok st \<and>
        property (Some body) ''data'' = Inr artworks"
      then have "ids' = ids" using last_rq by simp
      with a good[of st body artworks]
      show "fst (fetchFromAPI rt s) = Returned artworks" by simp
      from a \<open>ids' = ids\<close> good[of st body artworks]
      show "localStorage (snd (fetchFromAPI rt s)) = (localStorage s)(CACHE_KEY \<mapsto>
        JSON_stringify rt (cachePayload
          (clock s + int (latency rt CountRequest) + int (latency rt (ArtworksRequest ids')))
          artworks))" by simp
    next
      assume n: "\<not> (\<exists>ids st body artworks.
        last (requests (snd (fetchFromAPI rt s))) = ArtworksRequest ids \<and>
        network rt (ArtworksRequest ids) = Response st (Some body) \<and> ok st \<and>
        property (Some body) ''data'' = Inr artworks)"
      have "\<not> (\<exists>st body artworks. network rt (ArtworksRequest ids) = Response st (Some body) \<and>
                 ok st \<and> property (Some body) ''data'' = Inr artworks)"
        using n last_rq by blast
      from bad[OF this]
      show "fst (fetchFromAPI rt s) =
        (case document s ''artworks-list'' of
           None \<Rightarrow> Threw TypeError
         | Some el \<Rightarrow> Returned (Some JNull))"
        "localStorage (snd (fetchFromAPI rt s)) = localStorage s"
        by simp_all
    qed
  qed
qed


lemma conj4_append: "a \<and> b \<and> c \<and> d \<Longrightarrow> e \<Longrightarrow> a \<and> b \<and> c \<and> d \<and> e"
  by simp

text \<open>A call that misses the cache goes through the same steps, from the state it started in.\<close>

lemma miss_sequence:
  assumes "fst (readCache rt s) = None"
  shows
  "(\<forall>t. ToNumber (coercion rt) (fst (getPageTotal rt s)) = Inr t \<longrightarrow>
      requests (snd (fetchArtworksAndCache rt s)) =
        requests s @ [CountRequest, ArtworksRequest
          (map (\<lambda>k. js_plus (Math_floor (js_times (Finite (rand rt (draws s + k))) t)) (Finite 1))
             [0..<10])]) \<and>
   (\<forall>err. ToNumber (coercion rt) (fst (getPageTotal rt s)) = Inl err \<longrightarrow>
      requests (snd (fetchArtworksAndCache rt s)) = requests s @ [CountRequest]) \<and>
   (\<forall>ids st body artworks.
      last (requests (snd (fetchArtworksAndCache rt s))) = ArtworksRequest ids \<and>
      network rt (ArtworksRequest ids) = Response st (Some body) \<and> ok st \<and>
      property (Some body) ''data'' = Inr artworks \<longrightarrow>
      fst (fetchArtworksAndCache rt s) = Returned artworks \<and>
      localStorage (snd (fetchArtworksAndCache rt s)) = (localStorage s)(CACHE_KEY \<mapsto>
        JSON_stringify rt (cachePayload
          (clock s + int (latency rt CountRequest) + int (latency rt (ArtworksRequest ids)))
          artworks))) \<and>
   (\<not> (\<exists>ids st body artworks.
      last (requests (snd (fetchArtworksAndCache rt s))) = ArtworksRequest ids \<and>
      network rt (ArtworksRequest ids) = Response st (Some body) \<and> ok st \<and>
      property (Some body) ''data'' = Inr artworks) \<longrightarrow>
      fst (fetchArtworksAndCache rt s) =
        (case document s ''artworks-list'' of
           None \<Rightarrow> Threw TypeError
         | Some el \<Rightarrow> Returned (Some JNull)) \<and>
      localStorage (snd (fetchArtworksAndCache rt s)) = localStorage s)"
proof -
  obtain s0 where rc: "readCache rt s = (None, s0)"
    using assms by (cases "readCache rt s") simp
  have run: "fetchArtworksAndCache rt s = fetchFromAPI rt s0"
    by (simp add: fetchArtworksAndCache_def rc)
  note fr = readCache_frame[OF rc]
  show ?thesis
    using fetchFromAPI_sequence[of rt s0]
    by (simp only: run fr getPageTotal_value[of rt s0 s])
qed

lemma absent_run_same:
  assumes "fst (readCache rt s) = None"
  shows "fst (fetchArtworksAndCache rt s) =
           fst (fetchArtworksAndCache rt (s\<lparr>localStorage := (localStorage s)(CACHE_KEY := None)\<rparr>)) \<and>
         requests (snd (fetchArtworksAndCache rt s)) =
           requests (snd (fetchArtworksAndCache rt
                            (s\<lparr>localStorage := (localStorage s)(CACHE_KEY := None)\<rparr>))) \<and>
         document (snd (fetchArtworksAndCache rt s)) =
           document (snd (fetchArtworksAndCache rt
                            (s\<lparr>localStorage := (localStorage s)(CACHE_KEY := None)\<rparr>)))"
proof -
  let ?absent = "s\<lparr>localStorage := (localStorage s)(CACHE_KEY := None)\<rparr>"
  have "fst (readCache rt ?absent) = None"
    by (rule absent_slot_misses) simp
  then show ?thesis
    using miss_runs_fetchFromAPI[OF assms] miss_runs_fetchFromAPI[of rt ?absent]
      fetchFromAPI_ignores_storage[where rt=rt and s=s]
    by simp
qed

lemma floor_draw_bounds:
  fixes r :: real and n :: int
  assumes "0 \<le> r" "r < 1" "0 < n"
  shows "1 \<le> \<lfloor>r * of_int n\<rfloor> + 1 \<and> \<lfloor>r * of_int n\<rfloor> + 1 \<le> n"
proof -
  have "0 \<le> r * of_int n" using assms by simp
  then have lo: "0 \<le> \<lfloor>r * of_int n\<rfloor>" by simp
  have "r * of_int n < 1 * of_int n"
    using assms by (intro mult_strict_right_mono) simp_all
  then have "\<lfloor>r * of_int n\<rfloor> < n" by (simp add: floor_less_iff)
  with lo show ?thesis by simp
qed

section \<open>Running the scenarios\<close>

lemmas demo_defs = demo_runtime_def demo_state_def demo_parser_def demo_serializer_def
  entry_text_def odd_entry_text_def broken_text_def written_text_def count_body_def artworks_body_def

lemmas run_defs = fetchArtworksAndCache_def readCache_def readCache_try_def fetchFromAPI_def
  fetchFromAPI_try_def getRandomIDs_def getPageTotal_def getPageTotal_try_def fetch_def
  console_log_def Date_now_def JSON_parse_def JSON_stringify_def cachePayload_def
  CACHE_DURATION_def ok_def Let_def

lemma replicate_ten: "replicate 10 x = [x, x, x, x, x, x, x, x, x, x]"
  by (simp add: numeral_eq_Suc)

lemma upt_ten: "[0..<10] = [0, 1, 2, 3, 4, 5, 6, 7, 8, 9]"
  by (simp add: upt_conv_Cons)

section \<open>The cache read\<close>

text \<open>
  Claim C1. When the slot holds a text that parses to an entry whose timestamp is less than
  one hour (\<open>CACHE_DURATION\<close>) before now, fetchArtworksAndCache returns the entry's data
  sequence as it is, sends no request and leaves the storage as it was.
\<close>

theorem fresh_entry_returned_without_fetch:
  assumes "localStorage s CACHE_KEY = Some raw"
    and "JSON_parse rt raw = Some (JObj entry)"
    and "map_of entry ''timestamp'' = Some (JNum ts)"
    and "map_of entry ''data'' = Some (JArr records)"
    and "of_int (Date_now s) - ts < CACHE_DURATION"
  shows "fst (fetchArtworksAndCache rt s) = Returned (Some (JArr records)) \<and>
         requests (snd (fetchArtworksAndCache rt s)) = requests s \<and>
         localStorage (snd (fetchArtworksAndCache rt s)) = localStorage s"
  using assms by (auto simp: cache_defs split: if_splits)

text \<open>
  The entry written at time 1000 is read at time 2000, with the network down: the cached
  records come back and nothing is sent.
\<close>

theorem fresh_entry_returned_without_fetch_witness:
  "localStorage (demo_state (Some entry_text) 2000 None) CACHE_KEY =
     Some entry_text \<and>
   JSON_parse (demo_runtime Failed Failed) entry_text =
     Some (JObj [(''timestamp'', JNum 1000), (''data'', JArr cached_records)]) \<and>
   of_int (Date_now (demo_state (Some entry_text) 2000 None)) - 1000 < CACHE_DURATION \<and>
   fst (fetchArtworksAndCache (demo_runtime Failed Failed)
          (demo_state (Some entry_text) 2000 None)) =
     Returned (Some (JArr cached_records)) \<and>
   requests (snd (fetchArtworksAndCache (demo_runtime Failed Failed)
          (demo_state (Some entry_text) 2000 None))) = [] \<and>
   localStorage (snd (fetchArtworksAndCache (demo_runtime Failed Failed)
          (demo_state (Some entry_text) 2000 None))) CACHE_KEY =
     Some entry_text"
proof -
  let ?s = "demo_state (Some entry_text) 2000 None"
  let ?rt = "demo_runtime Failed Failed"
  have h1: "localStorage ?s CACHE_KEY = Some entry_text"
    by (simp add: demo_defs)
  have h2: "JSON_parse ?rt entry_text =
      Some (JObj [(''timestamp'', JNum 1000), (''data'', JArr cached_records)])"
    by (simp add: JSON_parse_def demo_defs)
  have h3: "map_of [(''timestamp'', JNum 1000), (''data'', JArr cached_records)] ''timestamp'' =
      Some (JNum 1000)"
    by simp
  have h4: "map_of [(''timestamp'', JNum 1000), (''data'', JArr cached_records)] ''data'' =
      Some (JArr cached_records)"
    by simp
  have h5: "of_int (Date_now ?s) - 1000 < CACHE_DURATION"
    by (simp add: Date_now_def CACHE_DURATION_def demo_defs)
  have r: "requests ?s = []" by (simp add: demo_defs)
  from fresh_entry_returned_without_fetch[OF h1 h2 h3 h4 h5] h1 h2 h5 r show ?thesis
    by simp
qed

text \<open>
  Claim C2. When the slot holds an entry whose timestamp is one hour or more before now,
  the stale data is not returned: the call goes through the remote fetch, exactly as it does
  on a state without the slot.
  \<^item> The count request is sent; the ten identifiers are computed from the total that
    getPageTotal gives and from the ten draws, \<open>\<lfloor>r * t\<rfloor> + 1\<close> each; the artworks request
    is sent for exactly these identifiers. (Should the conversion of the total to a number
    throw, the sequence ends there, after the count request.)
  \<^item> What the call returns is decided by the reply to the artworks request: the
    \<^verbatim>\<open>data\<close> of a successful response, which also replaces the stale entry in the slot,
    and the failure signal otherwise, with the storage as it was.
  \<^item> The outcome, the requests and what the page shows are those of the same call on the
    state without the slot.
\<close>

theorem stale_entry_fetched_as_absent:
  assumes "localStorage s CACHE_KEY = Some raw"
    and "JSON_parse rt raw = Some (JObj entry)"
    and "map_of entry ''timestamp'' = Some (JNum ts)"
    and "CACHE_DURATION \<le> of_int (Date_now s) - ts"
  shows
  "(\<forall>t. ToNumber (coercion rt) (fst (getPageTotal rt s)) = Inr t \<longrightarrow>
      requests (snd (fetchArtworksAndCache rt s)) =
        requests s @ [CountRequest, ArtworksRequest
          (map (\<lambda>k. js_plus (Math_floor (js_times (Finite (rand rt (draws s + k))) t)) (Finite 1))
             [0..<10])]) \<and>
   (\<forall>err. ToNumber (coercion rt) (fst (getPageTotal rt s)) = Inl err \<longrightarrow>
      requests (snd (fetchArtworksAndCache rt s)) = requests s @ [CountRequest]) \<and>
   (\<forall>ids st body artworks.
      last (requests (snd (fetchArtworksAndCache rt s))) = ArtworksRequest ids \<and>
      network rt (ArtworksRequest ids) = Response st (Some body) \<and> ok st \<and>
      property (Some body) ''data'' = Inr artworks \<longrightarrow>
      fst (fetchArtworksAndCache rt s) = Returned artworks \<and>
      localStorage (snd (fetchArtworksAndCache rt s)) = (localStorage s)(CACHE_KEY \<mapsto>
        JSON_stringify rt (cachePayload
          (clock s + int (latency rt CountRequest) + int (latency rt (ArtworksRequest ids)))
          artworks))) \<and>
   (\<not> (\<exists>ids st body artworks.
      last (requests (snd (fetchArtworksAndCache rt s))) = ArtworksRequest ids \<and>
      network rt (ArtworksRequest ids) = Response st (Some body) \<and> ok st \<and>
      property (Some body) ''data'' = Inr artworks) \<longrightarrow>
      fst (fetchArtworksAndCache rt s) =
        (case document s ''artworks-list'' of
           None \<Rightarrow> Threw TypeError
         | Some el \<Rightarrow> Returned (Some JNull)) \<and>
      localStorage (snd (fetchArtworksAndCache rt s)) = localStorage s) \<and>
   fst (fetchArtworksAndCache rt s) =
     fst (fetchArtworksAndCache rt (s\<lparr>localStorage := (localStorage s)(CACHE_KEY := None)\<rparr>)) \<and>
   requests (snd (fetchArtworksAndCache rt s)) =
     requests (snd (fetchArtworksAndCache rt
                      (s\<lparr>localStorage := (localStorage s)(CACHE_KEY := None)\<rparr>))) \<and>
   document (snd (fetchArtworksAndCache rt s)) =
     document (snd (fetchArtworksAndCache rt
                      (s\<lparr>localStorage := (localStorage s)(CACHE_KEY := None)\<rparr>)))"
proof -
  have "readCache rt s = (None, console_log CacheExpired s)"
    using assms by (auto simp: cache_defs split: if_splits)
  then have miss: "fst (readCache rt s) = None" by simp
  show ?thesis
    by (rule conj4_append[OF miss_sequence[OF miss] absent_run_same[OF miss]])
qed

text \<open>
  The entry written at time 1000 is read exactly one hour later (the first stale instant),
  with a total of 100 and the draws 0, 1/4, 1/2, 3/4 in turn: both requests are sent, the
  records of the response come back and replace the entry.
\<close>

theorem stale_entry_fetched_as_absent_witness:
  "localStorage (demo_state (Some entry_text) 3601000 None) CACHE_KEY = Some entry_text \<and>
   JSON_parse (demo_runtime (Response 200 (Some (count_body 100))) (Response 200 (Some artworks_body)))
       entry_text =
     Some (JObj [(''timestamp'', JNum 1000), (''data'', JArr cached_records)]) \<and>
   CACHE_DURATION \<le> of_int (Date_now (demo_state (Some entry_text) 3601000 None)) - 1000 \<and>
   requests (snd (fetchArtworksAndCache
       (demo_runtime (Response 200 (Some (count_body 100))) (Response 200 (Some artworks_body)))
       (demo_state (Some entry_text) 3601000 None))) =
     [CountRequest, ArtworksRequest (map Finite [1, 26, 51, 76, 1, 26, 51, 76, 1, 26])] \<and>
   fst (fetchArtworksAndCache
       (demo_runtime (Response 200 (Some (count_body 100))) (Response 200 (Some artworks_body)))
       (demo_state (Some entry_text) 3601000 None)) =
     Returned (Some (JArr demo_records)) \<and>
   localStorage (snd (fetchArtworksAndCache
       (demo_runtime (Response 200 (Some (count_body 100))) (Response 200 (Some artworks_body)))
       (demo_state (Some entry_text) 3601000 None))) CACHE_KEY = Some written_text"
proof -
  let ?s = "demo_state (Some entry_text) 3601000 None"
  let ?rt = "demo_runtime (Response 200 (Some (count_body 100))) (Response 200 (Some artworks_body))"
  let ?ids = "map Finite [1, 26, 51, 76, 1, 26, 51, 76, 1, 26]"
  have h1: "localStorage ?s CACHE_KEY = Some entry_text"
    by (simp add: demo_defs)
  have h2: "JSON_parse ?rt entry_text =
      Some (JObj [(''timestamp'', JNum 1000), (''data'', JArr cached_records)])"
    by (simp add: JSON_parse_def demo_defs)
  have h3: "map_of [(''timestamp'', JNum 1000), (''data'', JArr cached_records)] ''timestamp'' =
      Some (JNum 1000)"
    by simp
  have h4: "CACHE_DURATION \<le> of_int (Date_now ?s) - 1000"
    by (simp add: Date_now_def CACHE_DURATION_def demo_defs)
  note run = stale_entry_fetched_as_absent[OF h1 h2 h3 h4]
  have conv: "ToNumber (coercion ?rt) (fst (getPageTotal ?rt ?s)) = Inr (Finite 100)"
    by (simp add: run_defs demo_defs)
  have "requests (snd (fetchArtworksAndCache ?rt ?s)) =
      requests ?s @ [CountRequest, ArtworksRequest
        (map (\<lambda>k. js_plus (Math_floor (js_times (Finite (rand ?rt (draws ?s + k))) (Finite 100)))
                     (Finite 1)) [0..<10])]"
    by (rule run[THEN conjunct1, rule_format, OF conv])
  then have rq: "requests (snd (fetchArtworksAndCache ?rt ?s)) = [CountRequest, ArtworksRequest ?ids]"
    by (simp add: demo_defs upt_ten)
  have reply: "last (requests (snd (fetchArtworksAndCache ?rt ?s))) = ArtworksRequest ?ids \<and>
      network ?rt (ArtworksRequest ?ids) = Response 200 (Some artworks_body) \<and> ok 200 \<and>
      property (Some artworks_body) ''data'' = Inr (Some (JArr demo_records))"
    using rq by (simp add: ok_def artworks_body_def demo_runtime_def)
  have "fst (fetchArtworksAndCache ?rt ?s) = Returned (Some (JArr demo_records)) \<and>
      localStorage (snd (fetchArtworksAndCache ?rt ?s)) = (localStorage ?s)(CACHE_KEY \<mapsto>
        JSON_stringify ?rt (cachePayload
          (clock ?s + int (latency ?rt CountRequest) + int (latency ?rt (ArtworksRequest ?ids)))
          (Some (JArr demo_records))))"
    by (rule run[THEN conjunct2, THEN conjunct2, THEN conjunct1, rule_format, OF reply])
  then have out: "fst (fetchArtworksAndCache ?rt ?s) = Returned (Some (JArr demo_records))"
    and slot: "localStorage (snd (fetchArtworksAndCache ?rt ?s)) CACHE_KEY = Some written_text"
    by (simp_all add: JSON_stringify_def cachePayload_def List.map_filter_simps
        demo_runtime_def demo_state_def demo_serializer_def)
  from h1 h2 h4 rq out slot show ?thesis
    by simp
qed

text \<open>
  Claim C5. When the slot is absent, or holds a text that does not parse, the call is a
  cache miss and goes through the remote fetch.
  \<^item> The count request is sent; the ten identifiers are computed from the total that
    getPageTotal gives and from the ten draws, \<open>\<lfloor>r * t\<rfloor> + 1\<close> each; the artworks request
    is sent for exactly these identifiers. (Should the conversion of the total to a number
    throw, the sequence ends there, after the count request.)
  \<^item> What the call returns is decided by the reply to the artworks request: the
    \<^verbatim>\<open>data\<close> of a successful response, which is also written into the slot, and the
    failure signal otherwise, with the storage as it was.
  \<^item> Nothing of the parse failure reaches the caller: the outcome, the requests and what
    the page shows are those of the same call on the state without the slot.
\<close>

theorem missing_or_corrupt_slot_fetched:
  assumes "localStorage s CACHE_KEY = None \<or>
           (\<exists>raw. localStorage s CACHE_KEY = Some raw \<and> JSON_parse rt raw = None)"
  shows
  "(\<forall>t. ToNumber (coercion rt) (fst (getPageTotal rt s)) = Inr t \<longrightarrow>
      requests (snd (fetchArtworksAndCache rt s)) =
        requests s @ [CountRequest, ArtworksRequest
          (map (\<lambda>k. js_plus (Math_floor (js_times (Finite (rand rt (draws s + k))) t)) (Finite 1))
             [0..<10])]) \<and>
   (\<forall>err. ToNumber (coercion rt) (fst (getPageTotal rt s)) = Inl err \<longrightarrow>
      requests (snd (fetchArtworksAndCache rt s)) = requests s @ [CountRequest]) \<and>
   (\<forall>ids st body artworks.
      last (requests (snd (fetchArtworksAndCache rt s))) = ArtworksRequest ids \<and>
      network rt (ArtworksRequest ids) = Response st (Some body) \<and> ok st \<and>
      property (Some body) ''data'' = Inr artworks \<longrightarrow>
      fst (fetchArtworksAndCache rt s) = Returned artworks \<and>
      localStorage (snd (fetchArtworksAndCache rt s)) = (localStorage s)(CACHE_KEY \<mapsto>
        JSON_stringify rt (cachePayload
          (clock s + int (latency rt CountRequest) + int (latency rt (ArtworksRequest ids)))
          artworks))) \<and>
   (\<not> (\<exists>ids st body artworks.
      last (requests (snd (fetchArtworksAndCache rt s))) = ArtworksRequest ids \<and>
      network rt (ArtworksRequest ids) = Response st (Some body) \<and> ok st \<and>
      property (Some body) ''data'' = Inr artworks) \<longrightarrow>
      fst (fetchArtworksAndCache rt s) =
        (case document s ''artworks-list'' of
           None \<Rightarrow> Threw TypeError
         | Some el \<Rightarrow> Returned (Some JNull)) \<and>
      localStorage (snd (fetchArtworksAndCache rt s)) = localStorage s) \<and>
   fst (fetchArtworksAndCache rt s) =
     fst (fetchArtworksAndCache rt (s\<lparr>localStorage := (localStorage s)(CACHE_KEY := None)\<rparr>)) \<and>
   requests (snd (fetchArtworksAndCache rt s)) =
     requests (snd (fetchArtworksAndCache rt
                      (s\<lparr>localStorage := (localStorage s)(CACHE_KEY := None)\<rparr>))) \<and>
   document (snd (fetchArtworksAndCache rt s)) =
     document (snd (fetchArtworksAndCache rt
                      (s\<lparr>localStorage := (localStorage s)(CACHE_KEY := None)\<rparr>)))"
proof -
  have miss: "fst (readCache rt s) = None"
    using assms by (auto simp: readCache_def readCache_try_def console_log_def)
  show ?thesis
    by (rule conj4_append[OF miss_sequence[OF miss] absent_run_same[OF miss]])
qed

text \<open>
  A slot whose text is cut short, with a total of 100 and the draws 0, 1/4, 1/2, 3/4 in
  turn: both requests are sent, and the records of the response come back and are cached.
\<close>

theorem missing_or_corrupt_slot_fetched_witness:
  "localStorage (demo_state (Some broken_text) 2000 None) CACHE_KEY = Some broken_text \<and>
   JSON_parse (demo_runtime (Response 200 (Some (count_body 100))) (Response 200 (Some artworks_body)))
       broken_text = None \<and>
   requests (snd (fetchArtworksAndCache
       (demo_runtime (Response 200 (Some (count_body 100))) (Response 200 (Some artworks_body)))
       (demo_state (Some broken_text) 2000 None))) =
     [CountRequest, ArtworksRequest (map Finite [1, 26, 51, 76, 1, 26, 51, 76, 1, 26])] \<and>
   fst (fetchArtworksAndCache
       (demo_runtime (Response 200 (Some (count_body 100))) (Response 200 (Some artworks_body)))
       (demo_state (Some broken_text) 2000 None)) = Returned (Some (JArr demo_records))"
proof -
  let ?s = "demo_state (Some broken_text) 2000 None"
  let ?rt = "demo_runtime (Response 200 (Some (count_body 100))) (Response 200 (Some artworks_body))"
  let ?ids = "map Finite [1, 26, 51, 76, 1, 26, 51, 76, 1, 26]"
  have h1: "localStorage ?s CACHE_KEY = Some broken_text"
    by (simp add: demo_defs)
  have h2: "JSON_parse ?rt broken_text = None"
    by (simp add: JSON_parse_def demo_defs)
  have h: "localStorage ?s CACHE_KEY = None \<or>
           (\<exists>raw. localStorage ?s CACHE_KEY = Some raw \<and> JSON_parse ?rt raw = None)"
    using h1 h2 by simp
  note run = missing_or_corrupt_slot_fetched[OF h]
  have conv: "ToNumber (coercion ?rt) (fst (getPageTotal ?rt ?s)) = Inr (Finite 100)"
    by (simp add: run_defs demo_defs)
  have "requests (snd (fetchArtworksAndCache ?rt ?s)) =
      requests ?s @ [CountRequest, ArtworksRequest
        (map (\<lambda>k. js_plus (Math_floor (js_times (Finite (rand ?rt (draws ?s + k))) (Finite 100)))
                     (Finite 1)) [0..<10])]"
    by (rule run[THEN conjunct1, rule_format, OF conv])
  then have rq: "requests (snd (fetchArtworksAndCache ?rt ?s)) = [CountRequest, ArtworksRequest ?ids]"
    by (simp add: demo_defs upt_ten)
  have reply: "last (requests (snd (fetchArtworksAndCache ?rt ?s))) = ArtworksRequest ?ids \<and>
      network ?rt (ArtworksRequest ?ids) = Response 200 (Some artworks_body) \<and> ok 200 \<and>
      property (Some artworks_body) ''data'' = Inr (Some (JArr demo_records))"
    using rq by (simp add: ok_def artworks_body_def demo_runtime_def)
  have out: "fst (fetchArtworksAndCache ?rt ?s) = Returned (Some (JArr demo_records))"
    by (rule run[THEN conjunct2, THEN conjunct2, THEN conjunct1, rule_format, OF reply,
          THEN conjunct1])
  from h1 h2 rq out show ?thesis
    by simp
qed

section \<open>The identifiers\<close>

text \<open>
  Claim C6. When getPageTotal gives a positive whole number \<open>n\<close>, getRandomIDs returns
  exactly ten identifiers; the identifier of round \<open>k\<close> is the whole number
  \<open>\<lfloor>r * n\<rfloor> + 1\<close> for the draw \<open>r\<close> of that round alone (so two rounds with the same draw
  give the same identifier: nothing removes duplicates), and it lies between 1 and \<open>n\<close>, for
  all draws in the interval from 0 (included) to 1 (excluded).
\<close>

theorem random_ids_in_range:
  assumes "fst (getPageTotal rt s) = Some (JNum (of_int n))"
    and "0 < n"
    and "\<forall>k<10. 0 \<le> rand rt (draws s + k) \<and> rand rt (draws s + k) < 1"
  shows "\<exists>ids. fst (getRandomIDs rt s) = Inr ids \<and> length ids = 10 \<and>
           (\<forall>k<10. \<exists>j. ids ! k = Finite (of_int j) \<and> 1 \<le> j \<and> j \<le> n \<and>
                          j = \<lfloor>rand rt (draws s + k) * of_int n\<rfloor> + 1)"
proof -
  obtain response s0 where gp: "getPageTotal rt s = (response, s0)"
    by (cases "getPageTotal rt s")
  have resp: "response = Some (JNum (of_int n))" using assms(1) gp by simp
  have d0: "draws s0 = draws s" using getPageTotal_draws[of rt s] gp by simp
  have tn: "ToNumber (coercion rt) response = Inr (Finite (of_int n))" by (simp add: resp)
  let ?ids = "map (\<lambda>k. js_plus (Math_floor (js_times (Finite (rand rt (draws s + k)))
                                                      (Finite (of_int n)))) (Finite 1))
                [0..<10]"
  have run: "fst (getRandomIDs rt s) = Inr ?ids"
    by (simp add: getRandomIDs_def gp randomIDs_loop_Inr[OF tn] d0)
  have "\<exists>j. ?ids ! k = Finite (of_int j) \<and> 1 \<le> j \<and> j \<le> n \<and>
              j = \<lfloor>rand rt (draws s + k) * of_int n\<rfloor> + 1" if "k < 10" for k
  proof -
    have "0 \<le> rand rt (draws s + k)" "rand rt (draws s + k) < 1"
      using assms(3) that by simp_all
    from floor_draw_bounds[OF this assms(2)] that show ?thesis by simp
  qed
  then show ?thesis using run by simp
qed

text \<open>The total 5000, with the draws 0, 1/4, 1/2, 3/4 in turn.\<close>

theorem random_ids_in_range_witness:
  "fst (getPageTotal (demo_runtime (Response 200 (Some (count_body 5000))) Failed)
          (demo_state None 0 None)) = Some (JNum (of_int 5000)) \<and>
   (0::int) < 5000 \<and>
   (\<exists>ids. fst (getRandomIDs (demo_runtime (Response 200 (Some (count_body 5000))) Failed)
                  (demo_state None 0 None)) = Inr ids \<and>
          length ids = 10 \<and> ids ! 3 = Finite 3751)"
proof -
  let ?s = "demo_state None 0 None"
  let ?rt = "demo_runtime (Response 200 (Some (count_body 5000))) Failed"
  have h1: "fst (getPageTotal ?rt ?s) = Some (JNum (of_int 5000))"
    by (simp add: run_defs demo_defs)
  have h2: "(0::int) < 5000" by simp
  have h3: "\<forall>k<10. 0 \<le> rand ?rt (draws ?s + k) \<and> rand ?rt (draws ?s + k) < 1"
    by (simp add: demo_defs)
  from random_ids_in_range[OF h1 h2 h3] obtain ids
    where run: "fst (getRandomIDs ?rt ?s) = Inr ids" "length ids = 10"
      and each: "\<forall>k<10. \<exists>j. ids ! k = Finite (of_int j) \<and> 1 \<le> j \<and> j \<le> 5000 \<and>
                     j = \<lfloor>rand ?rt (draws ?s + k) * of_int 5000\<rfloor> + 1"
    by blast
  have "\<lfloor>rand ?rt (draws ?s + 3) * of_int 5000\<rfloor> + 1 = 3751"
    by (simp add: demo_defs)
  with each have "ids ! 3 = Finite 3751"
    by fastforce
  with run h1 h2 show ?thesis
    by blast
qed

text \<open>
  Claim C10. When getPageTotal gives \<^verbatim>\<open>null\<close> (the count request failed, or the total was
  zero), getRandomIDs still returns ten identifiers, each of them 1, whatever the draws; and
  a call of fetchArtworksAndCache that misses the cache sends the count request and then the
  artworks request for these ten identifiers.
\<close>

theorem null_total_gives_ids_one:
  assumes "fst (getPageTotal rt s) = Some JNull"
  shows "fst (getRandomIDs rt s) = Inr (replicate 10 (Finite 1)) \<and>
         (fst (readCache rt s) = None \<longrightarrow>
            requests (snd (fetchArtworksAndCache rt s)) =
              requests s @ [CountRequest, ArtworksRequest (replicate 10 (Finite 1))])"
proof -
  obtain response s0 where gp: "getPageTotal rt s = (response, s0)"
    by (cases "getPageTotal rt s")
  have tn: "ToNumber (coercion rt) response = Inr (Finite 0)" using assms gp by simp
  have "map (\<lambda>k. Finite 1) [0..<10] = replicate 10 (Finite 1)"
    by (simp add: map_replicate_const)
  then have ids: "fst (getRandomIDs rt s) = Inr (replicate 10 (Finite 1))"
    by (simp add: getRandomIDs_def gp randomIDs_loop_Inr[OF tn])
  then obtain s1 where g: "getRandomIDs rt s = (Inr (replicate 10 (Finite 1)), s1)"
    by (cases "getRandomIDs rt s") simp
  show ?thesis
    using ids fetchFromAPI_ids[OF g] miss_runs_fetchFromAPI[of rt s] by simp
qed

text \<open>The count request fails, the slot is absent.\<close>

theorem null_total_gives_ids_one_witness:
  "fst (getPageTotal (demo_runtime Failed Failed) (demo_state None 0 None)) = Some JNull \<and>
   fst (readCache (demo_runtime Failed Failed) (demo_state None 0 None)) = None \<and>
   fst (getRandomIDs (demo_runtime Failed Failed) (demo_state None 0 None)) =
     Inr (replicate 10 (Finite 1)) \<and>
   requests (snd (fetchArtworksAndCache (demo_runtime Failed Failed) (demo_state None 0 None))) =
     [CountRequest, ArtworksRequest (replicate 10 (Finite 1))]"
proof -
  let ?s = "demo_state None 0 None"
  let ?rt = "demo_runtime Failed Failed"
  have h1: "fst (getPageTotal ?rt ?s) = Some JNull"
    by (simp add: run_defs demo_defs)
  have h2: "fst (readCache ?rt ?s) = None"
    by (simp add: readCache_def demo_defs)
  have r: "requests ?s = []" by (simp add: demo_defs)
  from null_total_gives_ids_one[OF h1] h1 h2 r show ?thesis
    by simp
qed

section \<open>The count request\<close>

text \<open>
  Claim C3 says that on a count response with total 0 the call fails and sends no artworks
  request. The program does not do this: getPageTotal logs the error and returns
  \<^verbatim>\<open>null\<close>, but getRandomIDs does not look at what it got, so the artworks request is
  sent, for ten identifiers 1, and when it succeeds the call returns its records.
\<close>

theorem zero_total_still_requests_artworks:
  "fst (fetchArtworksAndCache
          (demo_runtime (Response 200 (Some (count_body 0))) (Response 200 (Some artworks_body)))
          (demo_state None 0 (Some Static))) = Returned (Some (JArr demo_records)) \<and>
   requests (snd (fetchArtworksAndCache
          (demo_runtime (Response 200 (Some (count_body 0))) (Response 200 (Some artworks_body)))
          (demo_state None 0 (Some Static)))) =
     [CountRequest, ArtworksRequest (replicate 10 (Finite 1))]"
  by (simp add: run_defs demo_defs randomIDs_loop_Inr[where t = "Finite 0"] upt_ten replicate_ten)

text \<open>
  Claim C4 says that when the count request fails, or its response has a status outside 200
  to 299, the call fails and sends no artworks request. The program does not do this: on a
  response with status 500, and on a request that fails, getPageTotal catches the error and
  returns \<^verbatim>\<open>null\<close>, and the call goes on as for C3: the artworks request is sent and
  its records are returned.
\<close>

theorem failed_count_still_requests_artworks:
  "fst (fetchArtworksAndCache
          (demo_runtime (Response 500 None) (Response 200 (Some artworks_body)))
          (demo_state None 0 (Some Static))) = Returned (Some (JArr demo_records)) \<and>
   requests (snd (fetchArtworksAndCache
          (demo_runtime (Response 500 None) (Response 200 (Some artworks_body)))
          (demo_state None 0 (Some Static)))) =
     [CountRequest, ArtworksRequest (replicate 10 (Finite 1))] \<and>
   fst (fetchArtworksAndCache
          (demo_runtime Failed (Response 200 (Some artworks_body)))
          (demo_state None 0 (Some Static))) = Returned (Some (JArr demo_records)) \<and>
   requests (snd (fetchArtworksAndCache
          (demo_runtime Failed (Response 200 (Some artworks_body)))
          (demo_state None 0 (Some Static)))) =
     [CountRequest, ArtworksRequest (replicate 10 (Finite 1))]"
  by (simp add: run_defs demo_defs randomIDs_loop_Inr[where t = "Finite 0"] upt_ten replicate_ten)

section \<open>The artworks request\<close>

text \<open>
  Claim C7. When a call has sent the artworks request for \<open>ids\<close> and the reply is a
  successful response whose body holds a record sequence under \<^verbatim>\<open>data\<close>, the call
  returns that sequence, and afterwards the slot holds the serialized object made of that
  sequence and of the timestamp \<open>t\<close>, the clock after both replies, which is not before the
  clock at the start of the call. The new content is built from \<open>t\<close> and the sequence alone,
  whatever the slot held before, and no other key of the storage changes.
\<close>

theorem successful_fetch_overwrites_slot:
  assumes "fetchArtworksAndCache rt s = (out, s')"
    and "ArtworksRequest ids \<in> set (drop (length (requests s)) (requests s'))"
    and "network rt (ArtworksRequest ids) = Response st (Some apiResponse)"
    and "ok st"
    and "property (Some apiResponse) ''data'' = Inr (Some (JArr records))"
  shows "\<exists>t. t = clock s + int (latency rt CountRequest) + int (latency rt (ArtworksRequest ids)) \<and>
           clock s \<le> t \<and>
           out = Returned (Some (JArr records)) \<and>
           localStorage s' = (localStorage s)(CACHE_KEY \<mapsto>
             serializer rt (JObj [(''timestamp'', JNum (of_int t)), (''data'', JArr records)]))"
proof -
  obtain s0 s1 where rc: "readCache rt s = (None, s0)"
    and g: "getRandomIDs rt s0 = (Inr ids, s1)"
    and api: "(out, s') = fetchFromAPI rt s0"
    using sent_batch_request[OF assms(1,2)] by blast
  note fr = readCache_frame[OF rc]
  note good = fetchFromAPI_success[OF g assms(3,4,5)]
  have "out = fst (fetchFromAPI rt s0)" "s' = snd (fetchFromAPI rt s0)"
    using api by (simp_all flip: api)
  then show ?thesis
    using good fr by (simp add: JSON_stringify_def cachePayload_def List.map_filter_simps)
qed

text \<open>
  The stale entry of time 1000 is in the slot at time 3601000; both replies take 120
  milliseconds, so the new entry carries the timestamp 3601240.
\<close>

theorem successful_fetch_overwrites_slot_witness:
  "ArtworksRequest (map Finite [1, 26, 51, 76, 1, 26, 51, 76, 1, 26]) \<in>
     set (drop (length (requests (demo_state (Some entry_text) 3601000 None)))
            (requests (snd (fetchArtworksAndCache
               (demo_runtime (Response 200 (Some (count_body 100))) (Response 200 (Some artworks_body)))
               (demo_state (Some entry_text) 3601000 None))))) \<and>
   network (demo_runtime (Response 200 (Some (count_body 100))) (Response 200 (Some artworks_body)))
     (ArtworksRequest (map Finite [1, 26, 51, 76, 1, 26, 51, 76, 1, 26])) =
     Response 200 (Some artworks_body) \<and>
   ok 200 \<and>
   property (Some artworks_body) ''data'' = Inr (Some (JArr demo_records)) \<and>
   fst (fetchArtworksAndCache
          (demo_runtime (Response 200 (Some (count_body 100))) (Response 200 (Some artworks_body)))
          (demo_state (Some entry_text) 3601000 None)) =
     Returned (Some (JArr demo_records)) \<and>
   localStorage (snd (fetchArtworksAndCache
          (demo_runtime (Response 200 (Some (count_body 100))) (Response 200 (Some artworks_body)))
          (demo_state (Some entry_text) 3601000 None))) CACHE_KEY =
     Some written_text"
proof -
  let ?s = "demo_state (Some entry_text) 3601000 None"
  let ?rt = "demo_runtime (Response 200 (Some (count_body 100))) (Response 200 (Some artworks_body))"
  let ?ids = "map Finite [1, 26, 51, 76, 1, 26, 51, 76, 1, 26]"
  have h1: "fetchArtworksAndCache ?rt ?s =
      (fst (fetchArtworksAndCache ?rt ?s), snd (fetchArtworksAndCache ?rt ?s))"
    by simp
  have h2: "ArtworksRequest ?ids \<in>
      set (drop (length (requests ?s)) (requests (snd (fetchArtworksAndCache ?rt ?s))))"
    by (simp add: run_defs demo_defs randomIDs_loop_Inr[where t = "Finite 100"] upt_ten)
  have h3: "network ?rt (ArtworksRequest ?ids) = Response 200 (Some artworks_body)"
    by (simp add: demo_defs)
  have h4: "ok 200" by (simp add: ok_def)
  have h5: "property (Some artworks_body) ''data'' = Inr (Some (JArr demo_records))"
    by (simp add: artworks_body_def)
  have c: "clock ?s = 3601000" "latency ?rt CountRequest = 120"
    "latency ?rt (ArtworksRequest ?ids) = 120"
    by (simp_all add: demo_defs)
  have w: "serializer ?rt (JObj [(''timestamp'', JNum 3601240), (''data'', JArr demo_records)]) =
      written_text"
    by (simp add: demo_runtime_def demo_serializer_def)
  from successful_fetch_overwrites_slot[OF h1 h2 h3 h4 h5] h2 h3 h4 h5 c w show ?thesis
    by simp
qed

text \<open>
  What a failed artworks request leads to: the error \<open>err\<close> of the transport is logged, the
  storage is left as it was and the request was sent once. On a page that has the element
  \<^verbatim>\<open>artworks-list\<close> the caller gets \<^verbatim>\<open>null\<close> and the page shows the error; on a
  page without it the handler itself throws, and the caller gets that exception.
\<close>

lemma failed_batch_outcome:
  assumes "fetchArtworksAndCache rt s = (out, s')"
    and "ArtworksRequest ids \<in> set (drop (length (requests s)) (requests s'))"
    and "network rt (ArtworksRequest ids) = Failed \<and> err = NetworkError \<or>
         (\<exists>b. network rt (ArtworksRequest ids) = Response st b \<and> \<not> ok st \<and> err = HttpError st)"
  shows "out = (case document s ''artworks-list'' of
                  None \<Rightarrow> Threw TypeError
                | Some el \<Rightarrow> Returned (Some JNull)) \<and>
         last (console s') = FetchError err \<and>
         document s' = (case document s ''artworks-list'' of
                          None \<Rightarrow> document s
                        | Some el \<Rightarrow> (document s)(''artworks-list'' \<mapsto> FailedToLoad err)) \<and>
         localStorage s' = localStorage s \<and>
         requests s' = requests s @ [CountRequest, ArtworksRequest ids]"
proof -
  obtain s0 s1 where rc: "readCache rt s = (None, s0)"
    and g: "getRandomIDs rt s0 = (Inr ids, s1)"
    and api: "(out, s') = fetchFromAPI rt s0"
    using sent_batch_request[OF assms(1,2)] by blast
  note fr = readCache_frame[OF rc]
  note bad = fetchFromAPI_failure[OF g assms(3)]
  have "out = fst (fetchFromAPI rt s0)" "s' = snd (fetchFromAPI rt s0)"
    using api by (simp_all flip: api)
  then show ?thesis
    using bad fr fetchFromAPI_ids[OF g] by (simp split: option.splits)
qed

text \<open>
  Claim C8 says that when the artworks request fails, or its response has a status outside
  200 to 299, the call fails with the transport error surfaced to the caller as the failure
  signal. The program does not do this on a page without the element \<^verbatim>\<open>artworks-list\<close>:
  the handler of lines 111 to 115 logs the transport error, then throws on
  \<^verbatim>\<open>document.getElementById('artworks-list').innerHTML\<close>, so \<^verbatim>\<open>return null\<close> is not
  reached and the caller gets a \<^verbatim>\<open>TypeError\<close>, for a response with status 503 and for a
  request that fails alike.
\<close>

theorem failed_batch_throws_without_list_element:
  "fst (fetchArtworksAndCache
          (demo_runtime (Response 200 (Some (count_body 100))) (Response 503 None))
          (demo_state None 0 None)) = Threw TypeError \<and>
   last (console (snd (fetchArtworksAndCache
          (demo_runtime (Response 200 (Some (count_body 100))) (Response 503 None))
          (demo_state None 0 None)))) = FetchError (HttpError 503) \<and>
   requests (snd (fetchArtworksAndCache
          (demo_runtime (Response 200 (Some (count_body 100))) (Response 503 None))
          (demo_state None 0 None))) =
     [CountRequest, ArtworksRequest (map Finite [1, 26, 51, 76, 1, 26, 51, 76, 1, 26])] \<and>
   fst (fetchArtworksAndCache
          (demo_runtime (Response 200 (Some (count_body 100))) Failed)
          (demo_state None 0 None)) = Threw TypeError \<and>
   last (console (snd (fetchArtworksAndCache
          (demo_runtime (Response 200 (Some (count_body 100))) Failed)
          (demo_state None 0 None)))) = FetchError NetworkError"
  by (simp add: run_defs demo_defs randomIDs_loop_Inr[where t = "Finite 100"] upt_ten)

section \<open>What the caller can get\<close>

text \<open>
  Claim C9 says that, for every slot content and every reply, the call returns a record
  sequence or \<^verbatim>\<open>null\<close> and never passes an exception on. It does not hold as stated.
  A fresh entry whose \<^verbatim>\<open>data\<close> is the number 7 is returned as it is, since nothing
  checks what the slot or the response holds under \<^verbatim>\<open>data\<close>; and on a page without the
  element \<^verbatim>\<open>artworks-list\<close> a failed fetch ends in the exception of the handler.
\<close>

theorem not_total_counterexample:
  "fst (fetchArtworksAndCache (demo_runtime Failed Failed)
          (demo_state (Some odd_entry_text) 2000 None)) =
     Returned (Some (JNum 7)) \<and>
   fst (fetchArtworksAndCache (demo_runtime Failed Failed) (demo_state None 2000 None)) =
     Threw TypeError"
  by (simp add: run_defs demo_defs randomIDs_loop_Inr[where t = "Finite 0"] upt_ten replicate_ten)

text \<open>
  Claim C9, amended. On a page that has the element \<^verbatim>\<open>artworks-list\<close>, for every slot
  content and every reply, the call returns a value and passes no exception on; the value
  is \<^verbatim>\<open>null\<close>, or what the parsed slot content holds under \<^verbatim>\<open>data\<close>, or what the
  body of a successful artworks response holds under \<^verbatim>\<open>data\<close> (a record sequence
  whenever that is one).
\<close>

theorem returns_value_when_list_element_present:
  assumes "document s ''artworks-list'' = Some el"
  shows "\<exists>v. fst (fetchArtworksAndCache rt s) = Returned v \<and>
           (v = Some JNull \<or>
            (\<exists>raw cache. localStorage s CACHE_KEY = Some raw \<and> JSON_parse rt raw = Some cache \<and>
                          property (Some cache) ''data'' = Inr v) \<or>
            (\<exists>ids st apiResponse.
                network rt (ArtworksRequest ids) = Response st (Some apiResponse) \<and>
                ok st \<and> property (Some apiResponse) ''data'' = Inr v))"
proof -
  obtain r s0 where rc: "readCache rt s = (r, s0)" by (cases "readCache rt s")
  note fr = readCache_frame[OF rc]
  show ?thesis
  proof (cases r)
    case (Some d)
    have "\<exists>raw cache. localStorage s CACHE_KEY = Some raw \<and> JSON_parse rt raw = Some cache \<and>
                          property (Some cache) ''data'' = Inr d"
      using rc Some
      by (auto simp: readCache_def readCache_try_def console_log_def Let_def
          split: option.splits sum.splits if_splits prod.splits)
    then show ?thesis using rc Some by (simp add: fetchArtworksAndCache_def)
  next
    case None
    then have run: "fetchArtworksAndCache rt s = fetchFromAPI rt s0"
      using rc by (simp add: fetchArtworksAndCache_def)
    obtain g s1 where g: "getRandomIDs rt s0 = (g, s1)" by (cases "getRandomIDs rt s0")
    have doc: "document s1 ''artworks-list'' = Some el"
      using getRandomIDs_frame(2)[OF g] fr assms by simp
    show ?thesis
      unfolding run using doc
      by (auto simp: api_defs g split: reply.splits option.splits sum.splits prod.splits)
  qed
qed

text \<open>The network is down, on a page that has the element: the call returns \<^verbatim>\<open>null\<close>.\<close>

theorem returns_value_when_list_element_present_witness:
  "document (demo_state None 0 (Some Static)) ''artworks-list'' = Some Static \<and>
   fst (fetchArtworksAndCache (demo_runtime Failed Failed) (demo_state None 0 (Some Static))) =
     Returned (Some JNull) \<and>
   (\<exists>v. fst (fetchArtworksAndCache (demo_runtime Failed Failed) (demo_state None 0 (Some Static))) =
          Returned v)"
proof -
  let ?s = "demo_state None 0 (Some Static)"
  let ?rt = "demo_runtime Failed Failed"
  have h: "document ?s ''artworks-list'' = Some Static"
    by (simp add: demo_defs)
  have no_slot: "localStorage ?s CACHE_KEY = None"
    by (simp add: demo_defs)
  have no_reply: "network ?rt (ArtworksRequest ids) = Failed" for ids
    by (simp add: demo_defs)
  from returns_value_when_list_element_present[OF h, of ?rt] h no_slot no_reply show ?thesis
    by auto
qed

end
